theory Spec2Isabelle
  imports Main "HOL-Library.Sublist" "HOL-Library.Multiset"
begin

section \<open>Data model\<close>

text \<open>
  Go's \<open>time.Time\<close> is used only through the comparison of instants, so an instant is
  an integer on one time line.
\<close>

type_synonym Time = int

text \<open>
  Go \<open>error\<close> values. An error handed back by a collaborator (the git layer, the
  tracker client) is \<open>Upstream\<close> with its message; the three errors that
  \<open>summarizer.go\<close> builds itself with \<open>fmt.Errorf\<close> are one constructor each:
  \<^item> \<open>FailedToParseRepoURL url\<close>: \<open>fmt.Errorf("failed to parse repo=%q URL", repoUrl)\<close>;
  \<^item> \<open>UnableToFetchAllReleases err\<close>: \<open>fmt.Errorf("unable to fetch all releases: %v", err)\<close>;
  \<^item> \<open>UnableToFindLatestRelease\<close>: \<open>fmt.Errorf("unable to find latest release")\<close>.
\<close>

datatype error =
    Upstream string
  | FailedToParseRepoURL string
  | UnableToFetchAllReleases error
  | UnableToFindLatestRelease

text \<open>\<open>git.Tag\<close>: the code reads \<open>Timestamp\<close> only.\<close>

record Tag =
  Name :: string
  Timestamp :: Time

text \<open>
  The release as the tracker client returns it; \<open>summarizer.go\<close> reads \<open>Tag\<close> and
  \<open>Date\<close>, the release scan reads the draft flag.
\<close>

record ghRelease =
  Tag :: string
  Date :: Time
  IsDraft :: bool

text \<open>\<open>release.Release\<close>.\<close>

record Release =
  Version :: string
  Date :: Time

text \<open>\<open>change.Reference\<close> and \<open>change.Summary\<close>; a \<open>change.Type\<close> is its name.\<close>

record Reference =
  Text :: string
  URL :: string

record Summary =
  Text :: string
  ChangeTypes :: "string list"
  Timestamp :: Time
  References :: "Reference list"

text \<open>The closed issue or pull request, with the fields \<open>Changes\<close> reads.\<close>

record issue =
  Title :: string
  Number :: int
  Labels :: "string list"
  ClosedAt :: Time
  URL :: string

text \<open>
  The label classification table \<open>labelSet\<close>. It is declared outside
  \<open>summarizer.go\<close>, so the table is a parameter: \<open>labels\<close> is what \<open>labels()\<close> returns and
  \<open>changeTypes\<close> is the method \<open>changeTypes(labels...)\<close>.
\<close>

record labelSet =
  labels :: "string list"
  changeTypes :: "string list \<Rightarrow> string list"

record ChangeSummarizer =
  repoPath :: string
  userName :: string
  repoName :: string
  changeTypeByLabel :: labelSet

section \<open>Strings\<close>

text \<open>
  Strings are byte lists. \<open>strings.Split\<close> is called with the one-byte separators
  \<open>":"\<close> and \<open>"/"\<close> only, so the separator is a character. It returns the fields between
  the separators and never an empty slice; the branch for an empty recursive result is
  therefore never taken (\<open>strings_Split_not_Nil\<close>).
\<close>

definition strings_HasPrefix :: "string \<Rightarrow> string \<Rightarrow> bool" where
  "strings_HasPrefix s pre = (length pre \<le> length s \<and> take (length pre) s = pre)"

definition strings_HasSuffix :: "string \<Rightarrow> string \<Rightarrow> bool" where
  "strings_HasSuffix s suf =
     (length suf \<le> length s \<and> drop (length s - length suf) s = suf)"

definition strings_TrimSuffix :: "string \<Rightarrow> string \<Rightarrow> string" where
  "strings_TrimSuffix s suf =
     (if strings_HasSuffix s suf then take (length s - length suf) s else s)"

fun strings_Split :: "string \<Rightarrow> char \<Rightarrow> string list" where
  "strings_Split [] sep = [[]]"
| "strings_Split (c # cs) sep =
     (if c = sep then [] # strings_Split cs sep
      else (case strings_Split cs sep of
              f # fs \<Rightarrow> (c # f) # fs
            | [] \<Rightarrow> [[c]]))"

text \<open>\<open>fmt.Sprintf("%d", n)\<close>: the decimal digits, with a minus sign below zero.\<close>

fun digits :: "nat \<Rightarrow> string" where
  "digits n =
     (if n < 10 then [''0123456789'' ! n]
      else digits (n div 10) @ [''0123456789'' ! (n mod 10)])"

declare digits.simps [simp del]

definition Sprintf_d :: "int \<Rightarrow> string" where
  "Sprintf_d n = (if n < 0 then CHR ''-'' # digits (nat (- n)) else digits (nat n))"

section \<open>Issue filters and release scan\<close>

type_synonym issueFilter = "issue \<Rightarrow> bool"

text \<open>
  Modelled from the spec: \<open>issuesAfter\<close> is declared outside \<open>summarizer.go\<close>. Section 4.2:
  \<open>issuesAfter(t)\<close> is \<open>issue.closedAt > t\<close> (strict).
\<close>

definition issuesAfter :: "Time \<Rightarrow> issueFilter" where
  "issuesAfter t = (\<lambda>issue. ClosedAt issue > t)"

text \<open>
  Modelled from the spec: \<open>issuesBefore\<close> is declared outside \<open>summarizer.go\<close>. Section 4.2:
  \<open>issuesBefore(t)\<close> is \<open>issue.closedAt <= t\<close> (inclusive upper bound).
\<close>

definition issuesBefore :: "Time \<Rightarrow> issueFilter" where
  "issuesBefore t = (\<lambda>issue. ClosedAt issue \<le> t)"

text \<open>
  Modelled from the spec: \<open>issuesWithLabel\<close> is declared outside \<open>summarizer.go\<close>. Section
  4.2: the issue has a non-empty intersection between its label set and the supplied
  label set.
\<close>

definition issuesWithLabel :: "string list \<Rightarrow> issueFilter" where
  "issuesWithLabel ls = (\<lambda>issue. set (Labels issue) \<inter> set ls \<noteq> {})"

text \<open>
  Modelled from the spec: \<open>filterIssues\<close> is declared outside \<open>summarizer.go\<close>. Section 4.2:
  it keeps an issue iff all filters return true (logical AND), preserving input order.
\<close>

definition filterIssues :: "issue list \<Rightarrow> issueFilter list \<Rightarrow> issue list" where
  "filterIssues issues filters = filter (\<lambda>issue. list_all (\<lambda>f. f issue) filters) issues"

text \<open>
  Modelled from the spec: \<open>latestNonDraftRelease\<close> is declared outside \<open>summarizer.go\<close>.
  Section 4.3: it scans all releases and returns the first whose draft flag is false; it
  returns none if every release is a draft or the list is empty.
\<close>

definition latestNonDraftRelease :: "ghRelease list \<Rightarrow> ghRelease option" where
  "latestNonDraftRelease releases = find (\<lambda>r. \<not> IsDraft r) releases"

section \<open>The summarizer\<close>

text \<open>
  The collaborators (\<open>git.RemoteUrl\<close>, \<open>git.SearchForTag\<close>, \<open>fetchRelease\<close>,
  \<open>fetchAllReleases\<close>, \<open>fetchClosedIssues\<close>, \<open>defaultLabelChangeTypes\<close>) are parameters
  of the function that calls them; a collaborator returns either an error or a value.
  A function of \<open>summarizer.go\<close> returns Go's pair: the value (\<open>nil\<close> is \<open>None\<close>, a nil
  slice is \<open>[]\<close>) and the error (\<open>nil\<close> is \<open>None\<close>).
\<close>

definition Release ::
  "(string \<Rightarrow> string \<Rightarrow> string \<Rightarrow> error + ghRelease) \<Rightarrow> ChangeSummarizer \<Rightarrow> string
     \<Rightarrow> Release option \<times> error option" where
  "Release fetchRelease s ref =
     (case fetchRelease (userName s) (repoName s) ref of
        Inl err \<Rightarrow> (None, Some err)
      | Inr targetRelease \<Rightarrow>
          (Some \<lparr>Version = Tag targetRelease, Date = ghRelease.Date targetRelease\<rparr>, None))"

definition TagURL :: "ChangeSummarizer \<Rightarrow> string \<Rightarrow> string" where
  "TagURL s tag = ''https://github.com/'' @ userName s @ ''/'' @ repoName s @ ''/tree/'' @ tag"

definition ChangesURL :: "ChangeSummarizer \<Rightarrow> string \<Rightarrow> string \<Rightarrow> string" where
  "ChangesURL s sinceRef untilRef =
     ''https://github.com/'' @ userName s @ ''/'' @ repoName s @ ''/compare/''
       @ sinceRef @ ''...'' @ untilRef"

definition extractGithubUserAndRepo :: "string \<Rightarrow> string \<times> string" where
  "extractGithubUserAndRepo url =
     (if \<not> strings_HasPrefix url ''git@'' then ('''', '''')
      else
        let fields = strings_Split (strings_TrimSuffix url ''.git'') CHR '':'';
            pair = strings_Split (last fields) CHR ''/''
        in if length pair \<noteq> 2 then ('''', '''')
           else (pair ! 0, pair ! 1))"

definition NewChangeSummarizer ::
  "(string \<Rightarrow> error + string) \<Rightarrow> labelSet \<Rightarrow> string
     \<Rightarrow> ChangeSummarizer option \<times> error option" where
  "NewChangeSummarizer RemoteUrl defaultLabelChangeTypes path =
     (case RemoteUrl path of
        Inl err \<Rightarrow> (None, Some err)
      | Inr repoUrl \<Rightarrow>
          (case extractGithubUserAndRepo repoUrl of
             (user, repo) \<Rightarrow>
               if user = '''' \<or> repo = '''' then (None, Some (FailedToParseRepoURL repoUrl))
               else (Some \<lparr>repoPath = path, userName = user, repoName = repo,
                            changeTypeByLabel = defaultLabelChangeTypes\<rparr>, None)))"

definition LastRelease ::
  "(string \<Rightarrow> string \<Rightarrow> error + ghRelease list) \<Rightarrow> ChangeSummarizer
     \<Rightarrow> Release option \<times> error option" where
  "LastRelease fetchAllReleases s =
     (case fetchAllReleases (userName s) (repoName s) of
        Inl err \<Rightarrow> (None, Some (UnableToFetchAllReleases err))
      | Inr releases \<Rightarrow>
          (case latestNonDraftRelease releases of
             Some latestRelease \<Rightarrow>
               (Some \<lparr>Version = Tag latestRelease, Date = ghRelease.Date latestRelease\<rparr>, None)
           | None \<Rightarrow> (None, Some UnableToFindLatestRelease)))"

text \<open>
  The loop of \<open>Changes\<close> over the filtered issues; \<open>summaries\<close> is the slice appended to.
\<close>

fun Changes_loop :: "labelSet \<Rightarrow> issue list \<Rightarrow> Summary list \<Rightarrow> Summary list" where
  "Changes_loop tbl [] summaries = summaries"
| "Changes_loop tbl (issue # rest) summaries =
     (let cts = changeTypes tbl (Labels issue)
      in if length cts > 0
         then Changes_loop tbl rest
                (summaries @
                 [\<lparr>Text = Title issue, ChangeTypes = cts, Timestamp = ClosedAt issue,
                   References =
                     [\<lparr>Reference.Text = CHR ''#'' # Sprintf_d (Number issue),
                       Reference.URL = issue.URL issue\<rparr>]\<rparr>])
         else Changes_loop tbl rest summaries)"

text \<open>
  \<open>Changes\<close> also returns the collaborator calls it made, in order, so that what it
  attempts can be stated.
\<close>

datatype call =
    Call_fetchClosedIssues string string
  | Call_SearchForTag string string

definition Changes ::
  "(string \<Rightarrow> string \<Rightarrow> error + issue list) \<Rightarrow> (string \<Rightarrow> string \<Rightarrow> error + Tag)
     \<Rightarrow> ChangeSummarizer \<Rightarrow> string \<Rightarrow> string
     \<Rightarrow> call list \<times> Summary list \<times> error option" where
  "Changes fetchClosedIssues SearchForTag s sinceRef untilRef =
     (let c1 = Call_fetchClosedIssues (userName s) (repoName s);
          c2 = Call_SearchForTag (repoPath s) sinceRef;
          c3 = Call_SearchForTag (repoPath s) untilRef
      in case fetchClosedIssues (userName s) (repoName s) of
           Inl err \<Rightarrow> ([c1], [], Some err)
         | Inr allClosedIssues \<Rightarrow>
             (case SearchForTag (repoPath s) sinceRef of
                Inl err \<Rightarrow> ([c1, c2], [], Some err)
              | Inr sinceTag \<Rightarrow>
                  let filters = [issuesAfter (Tag.Timestamp sinceTag),
                                 issuesWithLabel (labels (changeTypeByLabel s))]
                  in if untilRef \<noteq> ''''
                     then (case SearchForTag (repoPath s) untilRef of
                             Inl err \<Rightarrow> ([c1, c2, c3], [], Some err)
                           | Inr untilTag \<Rightarrow>
                               ([c1, c2, c3],
                                Changes_loop (changeTypeByLabel s)
                                  (filterIssues allClosedIssues
                                     (filters @ [issuesBefore (Tag.Timestamp untilTag)])) [],
                                None))
                     else ([c1, c2],
                           Changes_loop (changeTypeByLabel s)
                             (filterIssues allClosedIssues filters) [],
                           None)))"

section \<open>Remote URL parsing and construction\<close>

lemma strings_Split_not_Nil: "strings_Split s sep \<noteq> []"
  by (induction s) (auto split: list.splits)

lemma strings_Split_no_sep: "sep \<notin> set s \<Longrightarrow> strings_Split s sep = [s]"
  by (induction s) auto

lemma strings_Split_append:
  "strings_Split (a @ sep # b) sep = strings_Split a sep @ strings_Split b sep"
proof (induction a)
  case Nil
  show ?case by simp
next
  case (Cons c a)
  show ?case
  proof (cases "c = sep")
    case True
    with Cons show ?thesis by simp
  next
    case False
    obtain f fs where fs: "strings_Split a sep = f # fs"
      using strings_Split_not_Nil [of a sep] by (cases "strings_Split a sep") auto
    with False Cons show ?thesis by simp
  qed
qed

lemma strings_TrimSuffix_append: "strings_TrimSuffix (s @ suf) suf = s"
  by (simp add: strings_TrimSuffix_def strings_HasSuffix_def)

lemma strings_HasPrefix_append: "strings_HasPrefix (pre @ s) pre"
  by (simp add: strings_HasPrefix_def)

lemma last_strings_Split_append:
  "sep \<notin> set b \<Longrightarrow> last (strings_Split (a @ sep # b) sep) = b"
  by (simp add: strings_Split_append strings_Split_no_sep)

lemma extract_ssh:
  assumes "CHR '':'' \<notin> set owner" "CHR '':'' \<notin> set repo"
    and "CHR ''/'' \<notin> set owner" "CHR ''/'' \<notin> set repo"
  shows "extractGithubUserAndRepo (''git@'' @ h @ '':'' @ owner @ ''/'' @ repo @ ''.git'')
           = (owner, repo)"
proof -
  let ?u = "''git@'' @ h @ '':'' @ owner @ ''/'' @ repo"
  have pre: "strings_HasPrefix (''git@'' @ (h @ '':'' @ owner @ ''/'' @ repo @ ''.git'')) ''git@''"
    by (rule strings_HasPrefix_append)
  have trim: "strings_TrimSuffix (?u @ ''.git'') ''.git'' = ?u"
    by (rule strings_TrimSuffix_append)
  have lst: "last (strings_Split ((''git@'' @ h) @ CHR '':'' # (owner @ ''/'' @ repo)) CHR '':'')
               = owner @ ''/'' @ repo"
    using assms by (intro last_strings_Split_append) simp
  have pr: "strings_Split (owner @ CHR ''/'' # repo) CHR ''/'' = [owner, repo]"
    using assms by (simp add: strings_Split_append strings_Split_no_sep)
  show ?thesis
    using pre trim lst pr by (simp add: extractGithubUserAndRepo_def)
qed

lemma NewChangeSummarizer_ok:
  assumes "RemoteUrl path = Inr url" and "extractGithubUserAndRepo url = (user, repo)"
    and "user \<noteq> ''''" and "repo \<noteq> ''''"
  shows "NewChangeSummarizer RemoteUrl dflt path =
           (Some \<lparr>repoPath = path, userName = user, repoName = repo, changeTypeByLabel = dflt\<rparr>,
            None)"
  using assms by (simp add: NewChangeSummarizer_def)

lemma NewChangeSummarizer_parse_failure:
  assumes "RemoteUrl path = Inr url"
    and "fst (extractGithubUserAndRepo url) = '''' \<or> snd (extractGithubUserAndRepo url) = ''''"
  shows "NewChangeSummarizer RemoteUrl dflt path = (None, Some (FailedToParseRepoURL url))"
  using assms by (auto simp: NewChangeSummarizer_def split: prod.splits)

lemma extract_acme:
  "extractGithubUserAndRepo ''git@github.com:acme/widgets.git'' = (''acme'', ''widgets'')"
  by (simp add: extractGithubUserAndRepo_def strings_HasPrefix_def strings_TrimSuffix_def
      strings_HasSuffix_def)

text \<open>
  C5. A repository whose remote URL is \<open>git@github.com:acme/widgets.git\<close> yields the
  coordinates owner \<open>acme\<close> and repo \<open>widgets\<close>; for the summarizer constructed from it
  and every tag, \<open>TagURL\<close> is \<open>https://github.com/acme/widgets/tree/<tag>\<close> (for
  \<open>v1.2.0\<close> in particular) and \<open>ChangesURL\<close> is
  \<open>https://github.com/acme/widgets/compare/<since>...<until>\<close>.
\<close>

theorem acme_widgets_coordinates_and_urls:
  assumes "RemoteUrl path = Inr ''git@github.com:acme/widgets.git''"
  shows "extractGithubUserAndRepo ''git@github.com:acme/widgets.git'' = (''acme'', ''widgets'')
     \<and> (\<exists>s. NewChangeSummarizer RemoteUrl dflt path = (Some s, None)
            \<and> userName s = ''acme'' \<and> repoName s = ''widgets''
            \<and> (\<forall>tag. TagURL s tag = ''https://github.com/acme/widgets/tree/'' @ tag)
            \<and> TagURL s ''v1.2.0'' = ''https://github.com/acme/widgets/tree/v1.2.0''
            \<and> (\<forall>sinceRef untilRef. ChangesURL s sinceRef untilRef =
                  ''https://github.com/acme/widgets/compare/'' @ sinceRef @ ''...'' @ untilRef))"
proof -
  have "NewChangeSummarizer RemoteUrl dflt path =
          (Some \<lparr>repoPath = path, userName = ''acme'', repoName = ''widgets'',
                  changeTypeByLabel = dflt\<rparr>, None)"
    using assms extract_acme by (intro NewChangeSummarizer_ok) auto
  then show ?thesis
    using extract_acme by (simp add: TagURL_def ChangesURL_def)
qed

theorem acme_widgets_coordinates_and_urls_witness:
  "(\<lambda>p. Inr ''git@github.com:acme/widgets.git'' :: error + string) ''/src/widgets''
      = Inr ''git@github.com:acme/widgets.git''
   \<and> (\<exists>s. NewChangeSummarizer (\<lambda>p. Inr ''git@github.com:acme/widgets.git'')
              \<lparr>labels = [''bug''], changeTypes = (\<lambda>ls. ls)\<rparr> ''/src/widgets'' = (Some s, None)
          \<and> TagURL s ''v1.2.0'' = ''https://github.com/acme/widgets/tree/v1.2.0''
          \<and> ChangesURL s ''v1.1.0'' ''v1.2.0''
                = ''https://github.com/acme/widgets/compare/v1.1.0...v1.2.0'')"
  using acme_widgets_coordinates_and_urls
    [of "\<lambda>p. Inr ''git@github.com:acme/widgets.git''" "''/src/widgets''"
        "\<lparr>labels = [''bug''], changeTypes = (\<lambda>ls. ls)\<rparr>"]
  by auto

text \<open>
  C9 (amended). The host of the remote URL is discarded: for every host \<open>h\<close>,
  construction from \<open>git@h:owner/repo.git\<close> (owner and repo non-empty path segments, free
  of \<open>:\<close> and \<open>/\<close>) succeeds with the coordinates \<open>owner\<close> and \<open>repo\<close>, and the result is
  the same for every other host; \<open>TagURL\<close> and \<open>ChangesURL\<close> of the result begin with
  \<open>https://github.com/\<close> and do not depend on \<open>h\<close>.
\<close>

theorem host_of_remote_url_discarded:
  assumes "RemoteUrl path = Inr (''git@'' @ h @ '':'' @ owner @ ''/'' @ repo @ ''.git'')"
    and "owner \<noteq> ''''" and "repo \<noteq> ''''"
    and "CHR '':'' \<notin> set owner" and "CHR '':'' \<notin> set repo"
    and "CHR ''/'' \<notin> set owner" and "CHR ''/'' \<notin> set repo"
  shows "\<exists>s. NewChangeSummarizer RemoteUrl dflt path = (Some s, None)
           \<and> s = \<lparr>repoPath = path, userName = owner, repoName = repo, changeTypeByLabel = dflt\<rparr>
           \<and> (\<forall>tag. TagURL s tag = ''https://github.com/'' @ owner @ ''/'' @ repo @ ''/tree/'' @ tag)
           \<and> (\<forall>sinceRef untilRef. ChangesURL s sinceRef untilRef =
                 ''https://github.com/'' @ owner @ ''/'' @ repo @ ''/compare/''
                   @ sinceRef @ ''...'' @ untilRef)
           \<and> (\<forall>tag. strings_HasPrefix (TagURL s tag) ''https://github.com/'')
           \<and> (\<forall>sinceRef untilRef.
                 strings_HasPrefix (ChangesURL s sinceRef untilRef) ''https://github.com/'')
           \<and> (\<forall>RemoteUrl' h'.
                 RemoteUrl' path = Inr (''git@'' @ h' @ '':'' @ owner @ ''/'' @ repo @ ''.git'')
                 \<longrightarrow> NewChangeSummarizer RemoteUrl' dflt path = (Some s, None))"
proof -
  have ex: "extractGithubUserAndRepo (''git@'' @ g @ '':'' @ owner @ ''/'' @ repo @ ''.git'')
          = (owner, repo)" for g
    using assms by (intro extract_ssh) auto
  have ok: "NewChangeSummarizer R dflt path =
      (Some \<lparr>repoPath = path, userName = owner, repoName = repo, changeTypeByLabel = dflt\<rparr>, None)"
    if "R path = Inr (''git@'' @ g @ '':'' @ owner @ ''/'' @ repo @ ''.git'')" for R g
    using that ex [of g] assms(2,3) by (intro NewChangeSummarizer_ok) auto
  have "NewChangeSummarizer RemoteUrl dflt path =
      (Some \<lparr>repoPath = path, userName = owner, repoName = repo, changeTypeByLabel = dflt\<rparr>, None)"
    using assms(1) by (rule ok)
  then show ?thesis
    using ok by (simp add: TagURL_def ChangesURL_def strings_HasPrefix_def)
qed

theorem host_of_remote_url_discarded_witness:
  "NewChangeSummarizer (\<lambda>p. Inr ''git@git.example.org:acme/widgets.git'')
       \<lparr>labels = [], changeTypes = (\<lambda>ls. [])\<rparr> ''/src/widgets''
     = (Some \<lparr>repoPath = ''/src/widgets'', userName = ''acme'', repoName = ''widgets'',
              changeTypeByLabel = \<lparr>labels = [], changeTypes = (\<lambda>ls. [])\<rparr>\<rparr>, None)
   \<and> NewChangeSummarizer (\<lambda>p. Inr ''git@github.com:acme/widgets.git'')
       \<lparr>labels = [], changeTypes = (\<lambda>ls. [])\<rparr> ''/src/widgets''
     = (Some \<lparr>repoPath = ''/src/widgets'', userName = ''acme'', repoName = ''widgets'',
              changeTypeByLabel = \<lparr>labels = [], changeTypes = (\<lambda>ls. [])\<rparr>\<rparr>, None)
   \<and> TagURL \<lparr>repoPath = ''/src/widgets'', userName = ''acme'', repoName = ''widgets'',
              changeTypeByLabel = \<lparr>labels = [], changeTypes = (\<lambda>ls. [])\<rparr>\<rparr> ''v2''
       = ''https://github.com/acme/widgets/tree/v2''"
proof -
  let ?R = "\<lambda>p::string. Inr ''git@git.example.org:acme/widgets.git'' :: error + string"
  let ?R' = "\<lambda>p::string. Inr ''git@github.com:acme/widgets.git'' :: error + string"
  let ?s = "\<lparr>repoPath = ''/src/widgets'', userName = ''acme'', repoName = ''widgets'',
              changeTypeByLabel = \<lparr>labels = [], changeTypes = (\<lambda>ls. [])\<rparr>\<rparr>"
  have all: "NewChangeSummarizer ?R \<lparr>labels = [], changeTypes = (\<lambda>ls. [])\<rparr> ''/src/widgets''
               = (Some ?s, None)
       \<and> TagURL ?s ''v2'' = ''https://github.com/acme/widgets/tree/v2''
       \<and> (\<forall>RemoteUrl' h'.
             RemoteUrl' ''/src/widgets''
               = Inr (''git@'' @ h' @ '':'' @ ''acme'' @ ''/'' @ ''widgets'' @ ''.git'')
             \<longrightarrow> NewChangeSummarizer RemoteUrl' \<lparr>labels = [], changeTypes = (\<lambda>ls. [])\<rparr>
                   ''/src/widgets'' = (Some ?s, None))"
    using host_of_remote_url_discarded
      [of ?R "''/src/widgets''" "''git.example.org''" "''acme''" "''widgets''"
          "\<lparr>labels = [], changeTypes = (\<lambda>ls. [])\<rparr>"]
    by simp
  have "NewChangeSummarizer ?R' \<lparr>labels = [], changeTypes = (\<lambda>ls. [])\<rparr> ''/src/widgets''
               = (Some ?s, None)"
    by (rule conjunct2 [OF conjunct2 [OF all], rule_format, of ?R' "''github.com''"]) simp
  with all show ?thesis by simp
qed

text \<open>
  C9 as stated fails in its last clause: constructed from
  \<open>git@github.com:acme/widgets.git\<close>, the host \<open>github.com\<close> does appear in the tag URL.
\<close>

theorem host_appears_in_tag_url:
  "NewChangeSummarizer (\<lambda>p. Inr (''git@'' @ ''github.com'' @ '':acme/widgets.git''))
       \<lparr>labels = [], changeTypes = (\<lambda>ls. [])\<rparr> ''/src/widgets''
     = (Some \<lparr>repoPath = ''/src/widgets'', userName = ''acme'', repoName = ''widgets'',
              changeTypeByLabel = \<lparr>labels = [], changeTypes = (\<lambda>ls. [])\<rparr>\<rparr>, None)
   \<and> sublist ''github.com''
         (TagURL \<lparr>repoPath = ''/src/widgets'', userName = ''acme'', repoName = ''widgets'',
                   changeTypeByLabel = \<lparr>labels = [], changeTypes = (\<lambda>ls. [])\<rparr>\<rparr> ''v1'')"
proof -
  have "TagURL \<lparr>repoPath = ''/src/widgets'', userName = ''acme'', repoName = ''widgets'',
                 changeTypeByLabel = \<lparr>labels = [], changeTypes = (\<lambda>ls. [])\<rparr>\<rparr> ''v1''
          = ''https://'' @ ''github.com'' @ ''/acme/widgets/tree/v1''"
    by (simp add: TagURL_def)
  then have "sublist ''github.com''
         (TagURL \<lparr>repoPath = ''/src/widgets'', userName = ''acme'', repoName = ''widgets'',
                   changeTypeByLabel = \<lparr>labels = [], changeTypes = (\<lambda>ls. [])\<rparr>\<rparr> ''v1'')"
    unfolding sublist_def by blast
  moreover have "NewChangeSummarizer (\<lambda>p. Inr (''git@'' @ ''github.com'' @ '':acme/widgets.git''))
       \<lparr>labels = [], changeTypes = (\<lambda>ls. [])\<rparr> ''/src/widgets''
     = (Some \<lparr>repoPath = ''/src/widgets'', userName = ''acme'', repoName = ''widgets'',
              changeTypeByLabel = \<lparr>labels = [], changeTypes = (\<lambda>ls. [])\<rparr>\<rparr>, None)"
    using extract_acme by (simp add: NewChangeSummarizer_def)
  ultimately show ?thesis by simp
qed

section \<open>Construction failures\<close>

lemma NewChangeSummarizer_error_no_value:
  "snd (NewChangeSummarizer RemoteUrl dflt path) \<noteq> None
     \<Longrightarrow> fst (NewChangeSummarizer RemoteUrl dflt path) = None"
  by (auto simp: NewChangeSummarizer_def split: sum.splits prod.splits if_splits)

lemma extract_no_prefix:
  "\<not> strings_HasPrefix url ''git@'' \<Longrightarrow> extractGithubUserAndRepo url = ('''', '''')"
  by (simp add: extractGithubUserAndRepo_def)

lemma extract_not_two_segments:
  "length (strings_Split (last (strings_Split (strings_TrimSuffix url ''.git'') CHR '':''))
             CHR ''/'') \<noteq> 2
     \<Longrightarrow> extractGithubUserAndRepo url = ('''', '''')"
  by (simp add: extractGithubUserAndRepo_def Let_def)

text \<open>
  C6 (amended). Construction fails with an error when the remote URL cannot be read, for
  every remote URL that does not start with \<open>git@\<close>, for every URL whose last
  \<open>:\<close>-separated field (after one trailing \<open>.git\<close> is removed) does not split on
  \<open>/\<close> into exactly two segments, and whenever the extracted owner or repo is the empty
  string; on any failure no summarizer is returned.
\<close>

theorem construction_failures:
  "(RemoteUrl path = Inl err \<longrightarrow>
      NewChangeSummarizer RemoteUrl dflt path = (None, Some err))
   \<and> (RemoteUrl path = Inr url \<and> \<not> strings_HasPrefix url ''git@'' \<longrightarrow>
        NewChangeSummarizer RemoteUrl dflt path = (None, Some (FailedToParseRepoURL url)))
   \<and> (RemoteUrl path = Inr url
        \<and> length (strings_Split
                    (last (strings_Split (strings_TrimSuffix url ''.git'') CHR '':''))
                    CHR ''/'') \<noteq> 2 \<longrightarrow>
        NewChangeSummarizer RemoteUrl dflt path = (None, Some (FailedToParseRepoURL url)))
   \<and> (RemoteUrl path = Inr url
        \<and> (fst (extractGithubUserAndRepo url) = '''' \<or> snd (extractGithubUserAndRepo url) = '''')
        \<longrightarrow> NewChangeSummarizer RemoteUrl dflt path = (None, Some (FailedToParseRepoURL url)))
   \<and> (snd (NewChangeSummarizer RemoteUrl dflt path) \<noteq> None \<longrightarrow>
        fst (NewChangeSummarizer RemoteUrl dflt path) = None)"
proof (intro conjI impI)
  assume "RemoteUrl path = Inl err"
  then show "NewChangeSummarizer RemoteUrl dflt path = (None, Some err)"
    by (simp add: NewChangeSummarizer_def)
next
  assume "RemoteUrl path = Inr url \<and> \<not> strings_HasPrefix url ''git@''"
  then show "NewChangeSummarizer RemoteUrl dflt path = (None, Some (FailedToParseRepoURL url))"
    by (intro NewChangeSummarizer_parse_failure) (simp_all add: extract_no_prefix)
next
  assume "RemoteUrl path = Inr url
    \<and> length (strings_Split (last (strings_Split (strings_TrimSuffix url ''.git'') CHR '':''))
                CHR ''/'') \<noteq> 2"
  then show "NewChangeSummarizer RemoteUrl dflt path = (None, Some (FailedToParseRepoURL url))"
    by (intro NewChangeSummarizer_parse_failure) (simp_all add: extract_not_two_segments)
next
  assume "RemoteUrl path = Inr url
    \<and> (fst (extractGithubUserAndRepo url) = '''' \<or> snd (extractGithubUserAndRepo url) = '''')"
  then show "NewChangeSummarizer RemoteUrl dflt path = (None, Some (FailedToParseRepoURL url))"
    by (intro NewChangeSummarizer_parse_failure) simp_all
next
  assume "snd (NewChangeSummarizer RemoteUrl dflt path) \<noteq> None"
  then show "fst (NewChangeSummarizer RemoteUrl dflt path) = None"
    by (rule NewChangeSummarizer_error_no_value)
qed

lemma extract_https:
  "extractGithubUserAndRepo ''https://github.com/acme/widgets.git'' = ('''', '''')"
  by (simp add: extractGithubUserAndRepo_def strings_HasPrefix_def)

lemma extract_three_segments:
  "extractGithubUserAndRepo ''git@github.com:acme/widgets/extra.git'' = ('''', '''')"
  by (simp add: extractGithubUserAndRepo_def strings_HasPrefix_def strings_TrimSuffix_def
      strings_HasSuffix_def)

lemma extract_empty_owner:
  "extractGithubUserAndRepo ''git@github.com:/widgets.git'' = ('''', ''widgets'')"
  by (simp add: extractGithubUserAndRepo_def strings_HasPrefix_def strings_TrimSuffix_def
      strings_HasSuffix_def)

theorem construction_failures_witness:
  "NewChangeSummarizer (\<lambda>p. Inl (Upstream ''no remote'')) \<lparr>labels = [], changeTypes = (\<lambda>ls. [])\<rparr>
       ''/src/widgets'' = (None, Some (Upstream ''no remote''))
   \<and> NewChangeSummarizer (\<lambda>p. Inr ''https://github.com/acme/widgets.git'')
        \<lparr>labels = [], changeTypes = (\<lambda>ls. [])\<rparr> ''/src/widgets''
       = (None, Some (FailedToParseRepoURL ''https://github.com/acme/widgets.git''))
   \<and> NewChangeSummarizer (\<lambda>p. Inr ''git@github.com:/widgets.git'')
        \<lparr>labels = [], changeTypes = (\<lambda>ls. [])\<rparr> ''/src/widgets''
       = (None, Some (FailedToParseRepoURL ''git@github.com:/widgets.git''))"
proof (intro conjI)
  show "NewChangeSummarizer (\<lambda>p. Inl (Upstream ''no remote''))
          \<lparr>labels = [], changeTypes = (\<lambda>ls. [])\<rparr> ''/src/widgets''
          = (None, Some (Upstream ''no remote''))"
    using construction_failures
      [of "\<lambda>p. Inl (Upstream ''no remote'')" "''/src/widgets''" "Upstream ''no remote''"]
    by simp
  show "NewChangeSummarizer (\<lambda>p. Inr ''https://github.com/acme/widgets.git'')
        \<lparr>labels = [], changeTypes = (\<lambda>ls. [])\<rparr> ''/src/widgets''
       = (None, Some (FailedToParseRepoURL ''https://github.com/acme/widgets.git''))"
    using construction_failures
      [of "\<lambda>p. Inr ''https://github.com/acme/widgets.git''" "''/src/widgets''" _ _
          "''https://github.com/acme/widgets.git''"]
    by (simp add: strings_HasPrefix_def)
  show "NewChangeSummarizer (\<lambda>p. Inr ''git@github.com:/widgets.git'')
        \<lparr>labels = [], changeTypes = (\<lambda>ls. [])\<rparr> ''/src/widgets''
       = (None, Some (FailedToParseRepoURL ''git@github.com:/widgets.git''))"
    using construction_failures
      [of "\<lambda>p. Inr ''git@github.com:/widgets.git''" "''/src/widgets''" _ _
          "''git@github.com:/widgets.git''"]
    by (simp add: extract_empty_owner)
qed

text \<open>
  C6 as stated fails: \<open>git@acme/widgets\<close> has no \<open>:\<close> and no \<open>.git\<close> suffix, so it
  does not have the shape \<open>git@host:owner/repo.git\<close>, yet construction succeeds, with owner
  \<open>git@acme\<close>.
\<close>

theorem construction_accepts_url_without_colon:
  "CHR '':'' \<notin> set ''git@acme/widgets''
   \<and> \<not> strings_HasSuffix ''git@acme/widgets'' ''.git''
   \<and> NewChangeSummarizer (\<lambda>p. Inr ''git@acme/widgets'')
        \<lparr>labels = [], changeTypes = (\<lambda>ls. [])\<rparr> ''/src/widgets''
       = (Some \<lparr>repoPath = ''/src/widgets'', userName = ''git@acme'', repoName = ''widgets'',
                changeTypeByLabel = \<lparr>labels = [], changeTypes = (\<lambda>ls. [])\<rparr>\<rparr>, None)"
  by (simp add: NewChangeSummarizer_def extractGithubUserAndRepo_def strings_HasPrefix_def
      strings_TrimSuffix_def strings_HasSuffix_def)

section \<open>Release scan and issue filters\<close>

lemma latestNonDraftRelease_first:
  "list_all IsDraft drafts \<Longrightarrow> \<not> IsDraft r
     \<Longrightarrow> latestNonDraftRelease (drafts @ r # rest) = Some r"
  by (induction drafts) (auto simp: latestNonDraftRelease_def)

lemma latestNonDraftRelease_none:
  "list_all IsDraft releases \<Longrightarrow> latestNonDraftRelease releases = None"
  by (induction releases) (auto simp: latestNonDraftRelease_def)

text \<open>
  C7. \<open>LastRelease\<close> returns the first release of the list whose draft flag is false,
  as version and date, also when drafts come before it; it fails with the error
  \<open>unable to find latest release\<close> when every release is a draft or the list is empty, and
  with the error that wraps the fetch error when the release fetch failed.
\<close>

theorem LastRelease_first_non_draft:
  "(fetchAllReleases (userName s) (repoName s) = Inr (drafts @ r # rest)
      \<and> list_all IsDraft drafts \<and> \<not> IsDraft r \<longrightarrow>
      LastRelease fetchAllReleases s
        = (Some \<lparr>Version = Tag r, Date = ghRelease.Date r\<rparr>, None))
   \<and> (fetchAllReleases (userName s) (repoName s) = Inr releases
        \<and> list_all IsDraft releases \<longrightarrow>
        LastRelease fetchAllReleases s = (None, Some UnableToFindLatestRelease))
   \<and> (fetchAllReleases (userName s) (repoName s) = Inr [] \<longrightarrow>
        LastRelease fetchAllReleases s = (None, Some UnableToFindLatestRelease))
   \<and> (fetchAllReleases (userName s) (repoName s) = Inl err \<longrightarrow>
        LastRelease fetchAllReleases s = (None, Some (UnableToFetchAllReleases err)))"
  by (auto simp: LastRelease_def latestNonDraftRelease_first latestNonDraftRelease_none)

theorem LastRelease_first_non_draft_witness:
  "LastRelease
      (\<lambda>u r. Inr [\<lparr>Tag = ''v2.0.0'', Date = 30, IsDraft = True\<rparr>,
                   \<lparr>Tag = ''v1.1.0'', Date = 20, IsDraft = False\<rparr>,
                   \<lparr>Tag = ''v1.0.0'', Date = 10, IsDraft = False\<rparr>])
      \<lparr>repoPath = ''/src/widgets'', userName = ''acme'', repoName = ''widgets'',
        changeTypeByLabel = \<lparr>labels = [], changeTypes = (\<lambda>ls. [])\<rparr>\<rparr>
     = (Some \<lparr>Version = ''v1.1.0'', Date = 20\<rparr>, None)
   \<and> LastRelease
      (\<lambda>u r. Inr [\<lparr>Tag = ''v2.0.0'', Date = 30, IsDraft = True\<rparr>])
      \<lparr>repoPath = ''/src/widgets'', userName = ''acme'', repoName = ''widgets'',
        changeTypeByLabel = \<lparr>labels = [], changeTypes = (\<lambda>ls. [])\<rparr>\<rparr>
     = (None, Some UnableToFindLatestRelease)
   \<and> LastRelease (\<lambda>u r. Inr [])
      \<lparr>repoPath = ''/src/widgets'', userName = ''acme'', repoName = ''widgets'',
        changeTypeByLabel = \<lparr>labels = [], changeTypes = (\<lambda>ls. [])\<rparr>\<rparr>
     = (None, Some UnableToFindLatestRelease)
   \<and> LastRelease (\<lambda>u r. Inl (Upstream ''rate limited''))
      \<lparr>repoPath = ''/src/widgets'', userName = ''acme'', repoName = ''widgets'',
        changeTypeByLabel = \<lparr>labels = [], changeTypes = (\<lambda>ls. [])\<rparr>\<rparr>
     = (None, Some (UnableToFetchAllReleases (Upstream ''rate limited'')))"
proof -
  let ?s = "\<lparr>repoPath = ''/src/widgets'', userName = ''acme'', repoName = ''widgets'',
        changeTypeByLabel = \<lparr>labels = [], changeTypes = (\<lambda>ls. [])\<rparr>\<rparr>"
  let ?d = "\<lparr>Tag = ''v2.0.0'', Date = 30, IsDraft = True\<rparr>"
  let ?r = "\<lparr>Tag = ''v1.1.0'', Date = 20, IsDraft = False\<rparr>"
  let ?o = "\<lparr>Tag = ''v1.0.0'', Date = 10, IsDraft = False\<rparr>"
  have a: "LastRelease (\<lambda>u r. Inr [?d, ?r, ?o]) ?s = (Some \<lparr>Version = ''v1.1.0'', Date = 20\<rparr>, None)"
    using LastRelease_first_non_draft
      [of "\<lambda>u r. Inr [?d, ?r, ?o]" ?s "[?d]" ?r "[?o]"]
    by simp
  have b: "LastRelease (\<lambda>u r. Inr [?d]) ?s = (None, Some UnableToFindLatestRelease)"
    using LastRelease_first_non_draft [of "\<lambda>u r. Inr [?d]" ?s _ _ _ "[?d]"]
    by simp
  have c: "LastRelease (\<lambda>u r. Inr []) ?s = (None, Some UnableToFindLatestRelease)"
    using LastRelease_first_non_draft [of "\<lambda>u r. Inr []" ?s]
    by simp
  have d: "LastRelease (\<lambda>u r. Inl (Upstream ''rate limited'')) ?s
             = (None, Some (UnableToFetchAllReleases (Upstream ''rate limited'')))"
    using LastRelease_first_non_draft
      [of "\<lambda>u r. Inl (Upstream ''rate limited'')" ?s _ _ _ _ "Upstream ''rate limited''"]
    by simp
  from a b c d show ?thesis by simp
qed

text \<open>
  C3. \<open>issuesAfter t\<close> keeps an issue iff its \<open>closedAt\<close> is strictly greater than \<open>t\<close>,
  \<open>issuesBefore t\<close> keeps it iff its \<open>closedAt\<close> is at most \<open>t\<close>; so an issue closed
  exactly at the since timestamp is excluded and one closed exactly at the until timestamp
  is included.
\<close>

theorem time_window_boundaries:
  "(issuesAfter t issue \<longleftrightarrow> ClosedAt issue > t)
   \<and> (issuesBefore t issue \<longleftrightarrow> ClosedAt issue \<le> t)
   \<and> \<not> issuesAfter (ClosedAt issue) issue
   \<and> issuesBefore (ClosedAt issue) issue
   \<and> filterIssues [issue] [issuesAfter (ClosedAt issue)] = []
   \<and> filterIssues [issue] [issuesBefore (ClosedAt issue)] = [issue]"
  by (simp add: issuesAfter_def issuesBefore_def filterIssues_def)

lemma filterIssues_filter:
  "filterIssues issues filters = filter (\<lambda>issue. \<forall>f\<in>set filters. f issue) issues"
  by (simp add: filterIssues_def list_all_iff)

text \<open>
  C8. \<open>filterIssues\<close> keeps an issue iff all supplied filters hold for it; its result
  does not change when the filters are permuted; the surviving issues are in their input
  order; with no filter the input list is returned unchanged.
\<close>

theorem filterIssues_conjunction:
  "(issue \<in> set (filterIssues issues filters)
      \<longleftrightarrow> issue \<in> set issues \<and> (\<forall>f\<in>set filters. f issue))
   \<and> filterIssues issues filters = filter (\<lambda>i. \<forall>f\<in>set filters. f i) issues
   \<and> (mset filters' = mset filters \<longrightarrow>
        filterIssues issues filters' = filterIssues issues filters)
   \<and> subseq (filterIssues issues filters) issues
   \<and> filterIssues issues [] = issues"
proof (intro conjI impI)
  show "issue \<in> set (filterIssues issues filters)
      \<longleftrightarrow> issue \<in> set issues \<and> (\<forall>f\<in>set filters. f issue)"
    by (auto simp: filterIssues_filter)
  show "filterIssues issues filters = filter (\<lambda>i. \<forall>f\<in>set filters. f i) issues"
    by (rule filterIssues_filter)
  show "subseq (filterIssues issues filters) issues"
    by (simp add: filterIssues_def)
  show "filterIssues issues [] = issues"
    by (simp add: filterIssues_def)
next
  assume "mset filters' = mset filters"
  then have "set filters' = set filters" by (rule mset_eq_setD)
  then show "filterIssues issues filters' = filterIssues issues filters"
    by (simp add: filterIssues_filter)
qed

theorem filterIssues_conjunction_witness:
  "mset [issuesBefore 20, issuesAfter 5] = mset [issuesAfter 5, issuesBefore 20]
   \<and> filterIssues
        [\<lparr>Title = ''a'', Number = 1, Labels = [''bug''], ClosedAt = 3, URL = ''u1''\<rparr>,
         \<lparr>Title = ''b'', Number = 2, Labels = [''bug''], ClosedAt = 9, URL = ''u2''\<rparr>,
         \<lparr>Title = ''c'', Number = 3, Labels = [], ClosedAt = 20, URL = ''u3''\<rparr>,
         \<lparr>Title = ''d'', Number = 4, Labels = [], ClosedAt = 21, URL = ''u4''\<rparr>]
        [issuesBefore 20, issuesAfter 5]
     = [\<lparr>Title = ''b'', Number = 2, Labels = [''bug''], ClosedAt = 9, URL = ''u2''\<rparr>,
        \<lparr>Title = ''c'', Number = 3, Labels = [], ClosedAt = 20, URL = ''u3''\<rparr>]"
proof -
  let ?is = "[\<lparr>Title = ''a'', Number = 1, Labels = [''bug''], ClosedAt = 3, URL = ''u1''\<rparr>,
         \<lparr>Title = ''b'', Number = 2, Labels = [''bug''], ClosedAt = 9, URL = ''u2''\<rparr>,
         \<lparr>Title = ''c'', Number = 3, Labels = [], ClosedAt = 20, URL = ''u3''\<rparr>,
         \<lparr>Title = ''d'', Number = 4, Labels = [], ClosedAt = 21, URL = ''u4''\<rparr>]"
  have p: "mset [issuesBefore 20, issuesAfter 5] = mset [issuesAfter 5, issuesBefore 20]"
    by (simp add: add.commute)
  have "filterIssues ?is [issuesBefore 20, issuesAfter 5]
          = filterIssues ?is [issuesAfter 5, issuesBefore 20]"
    using filterIssues_conjunction
      [of _ ?is "[issuesAfter 5, issuesBefore 20]" "[issuesBefore 20, issuesAfter 5]"] p
    by blast
  also have "\<dots> = [\<lparr>Title = ''b'', Number = 2, Labels = [''bug''], ClosedAt = 9, URL = ''u2''\<rparr>,
        \<lparr>Title = ''c'', Number = 3, Labels = [], ClosedAt = 20, URL = ''u3''\<rparr>]"
    by (simp add: filterIssues_def issuesAfter_def issuesBefore_def)
  finally show ?thesis using p by simp
qed

section \<open>Changes\<close>

lemma Changes_loop_map_filter:
  "Changes_loop tbl issues summaries =
     summaries @
     map (\<lambda>issue. \<lparr>Text = Title issue, ChangeTypes = changeTypes tbl (Labels issue),
                     Timestamp = ClosedAt issue,
                     References = [\<lparr>Reference.Text = CHR ''#'' # Sprintf_d (Number issue),
                                    Reference.URL = issue.URL issue\<rparr>]\<rparr>)
       (filter (\<lambda>issue. changeTypes tbl (Labels issue) \<noteq> []) issues)"
  by (induction issues arbitrary: summaries) (simp_all add: Let_def)

lemma Changes_fetch_error:
  "fetchClosedIssues (userName s) (repoName s) = Inl err
     \<Longrightarrow> Changes fetchClosedIssues SearchForTag s sinceRef untilRef
           = ([Call_fetchClosedIssues (userName s) (repoName s)], [], Some err)"
  by (simp add: Changes_def)



lemma Changes_open_range:
  "fetchClosedIssues (userName s) (repoName s) = Inr allClosedIssues
     \<Longrightarrow> SearchForTag (repoPath s) sinceRef = Inr sinceTag
     \<Longrightarrow> Changes fetchClosedIssues SearchForTag s sinceRef ''''
           = ([Call_fetchClosedIssues (userName s) (repoName s),
               Call_SearchForTag (repoPath s) sinceRef],
              Changes_loop (changeTypeByLabel s)
                (filterIssues allClosedIssues
                   [issuesAfter (Tag.Timestamp sinceTag),
                    issuesWithLabel (labels (changeTypeByLabel s))]) [],
              None)"
  by (simp add: Changes_def)

lemma Changes_closed_range:
  "fetchClosedIssues (userName s) (repoName s) = Inr allClosedIssues
     \<Longrightarrow> SearchForTag (repoPath s) sinceRef = Inr sinceTag
     \<Longrightarrow> untilRef \<noteq> ''''
     \<Longrightarrow> SearchForTag (repoPath s) untilRef = Inr untilTag
     \<Longrightarrow> Changes fetchClosedIssues SearchForTag s sinceRef untilRef
           = ([Call_fetchClosedIssues (userName s) (repoName s),
               Call_SearchForTag (repoPath s) sinceRef,
               Call_SearchForTag (repoPath s) untilRef],
              Changes_loop (changeTypeByLabel s)
                (filterIssues allClosedIssues
                   [issuesAfter (Tag.Timestamp sinceTag),
                    issuesWithLabel (labels (changeTypeByLabel s)),
                    issuesBefore (Tag.Timestamp untilTag)]) [],
              None)"
  by (simp add: Changes_def)


text \<open>
  C1. When the fetch and the tag resolutions succeed, \<open>Changes\<close> returns exactly one
  summary for each filtered issue whose classification is non-empty, in order, with the
  issue's title as text, the classification as change types, \<open>closedAt\<close> as timestamp and
  the single reference \<open>#number\<close> with the issue's URL; no returned summary has an empty
  classification.
\<close>

theorem Changes_one_summary_per_classified_issue:
  assumes "fetchClosedIssues (userName s) (repoName s) = Inr allClosedIssues"
    and "SearchForTag (repoPath s) sinceRef = Inr sinceTag"
    and "untilRef = '''' \<or> SearchForTag (repoPath s) untilRef = Inr untilTag"
  shows "snd (Changes fetchClosedIssues SearchForTag s sinceRef untilRef) =
           (map (\<lambda>issue. \<lparr>Text = Title issue,
                            ChangeTypes = changeTypes (changeTypeByLabel s) (Labels issue),
                            Timestamp = ClosedAt issue,
                            References =
                              [\<lparr>Reference.Text = CHR ''#'' # Sprintf_d (Number issue),
                                Reference.URL = issue.URL issue\<rparr>]\<rparr>)
              (filter (\<lambda>issue. changeTypes (changeTypeByLabel s) (Labels issue) \<noteq> [])
                 (filterIssues allClosedIssues
                    ([issuesAfter (Tag.Timestamp sinceTag),
                      issuesWithLabel (labels (changeTypeByLabel s))]
                     @ (if untilRef = '''' then [] else [issuesBefore (Tag.Timestamp untilTag)])))),
            None)
       \<and> (\<forall>sm \<in> set (fst (snd (Changes fetchClosedIssues SearchForTag s sinceRef untilRef))).
             ChangeTypes sm \<noteq> [])"
proof (cases "untilRef = ''''")
  case True
  with assms show ?thesis
    by (auto simp: Changes_open_range Changes_loop_map_filter)
next
  case False
  with assms show ?thesis
    by (auto simp: Changes_closed_range Changes_loop_map_filter)
qed

theorem Changes_one_summary_per_classified_issue_witness:
  "snd (Changes
     (\<lambda>u r. Inr [\<lparr>Title = ''Crash on start'', Number = 1, Labels = [''bug''], ClosedAt = 5,
                    URL = ''https://github.com/acme/widgets/issues/1''\<rparr>,
                  \<lparr>Title = ''How to install'', Number = 2, Labels = [''question''], ClosedAt = 15,
                    URL = ''https://github.com/acme/widgets/issues/2''\<rparr>,
                  \<lparr>Title = ''Add export'', Number = 3, Labels = [''enhancement''], ClosedAt = 25,
                    URL = ''https://github.com/acme/widgets/issues/3''\<rparr>])
     (\<lambda>p r. if r = ''v1.0.0'' then Inr \<lparr>Name = ''v1.0.0'', Timestamp = 10\<rparr>
            else if r = ''v1.1.0'' then Inr \<lparr>Name = ''v1.1.0'', Timestamp = 25\<rparr>
            else Inl (Upstream ''tag not found''))
     \<lparr>repoPath = ''/src/widgets'', userName = ''acme'', repoName = ''widgets'',
       changeTypeByLabel =
         \<lparr>labels = [''bug'', ''enhancement'', ''question''],
           changeTypes = (\<lambda>ls. concat (map (\<lambda>l. if l = ''bug'' then [''fixed'']
                                              else if l = ''enhancement'' then [''added'']
                                              else []) ls))\<rparr>\<rparr>
     ''v1.0.0'' ''v1.1.0'')
   = ([\<lparr>Text = ''Add export'', ChangeTypes = [''added''], Timestamp = 25,
        References = [\<lparr>Reference.Text = ''#3'',
                       Reference.URL = ''https://github.com/acme/widgets/issues/3''\<rparr>]\<rparr>],
      None)"
proof -
  let ?is = "[\<lparr>Title = ''Crash on start'', Number = 1, Labels = [''bug''], ClosedAt = 5,
                    URL = ''https://github.com/acme/widgets/issues/1''\<rparr>,
                  \<lparr>Title = ''How to install'', Number = 2, Labels = [''question''], ClosedAt = 15,
                    URL = ''https://github.com/acme/widgets/issues/2''\<rparr>,
                  \<lparr>Title = ''Add export'', Number = 3, Labels = [''enhancement''], ClosedAt = 25,
                    URL = ''https://github.com/acme/widgets/issues/3''\<rparr>]"
  let ?fetch = "\<lambda>(u::string) (r::string). Inr ?is :: error + issue list"
  let ?search = "\<lambda>(p::string) r. if r = ''v1.0.0'' then Inr \<lparr>Name = ''v1.0.0'', Timestamp = 10\<rparr>
            else if r = ''v1.1.0'' then Inr \<lparr>Name = ''v1.1.0'', Timestamp = 25\<rparr>
            else Inl (Upstream ''tag not found'')"
  let ?s = "\<lparr>repoPath = ''/src/widgets'', userName = ''acme'', repoName = ''widgets'',
       changeTypeByLabel =
         \<lparr>labels = [''bug'', ''enhancement'', ''question''],
           changeTypes = (\<lambda>ls. concat (map (\<lambda>l. if l = ''bug'' then [''fixed'']
                                              else if l = ''enhancement'' then [''added'']
                                              else []) ls))\<rparr>\<rparr>"
  have h1: "?fetch (userName ?s) (repoName ?s) = Inr ?is" by simp
  have h2: "?search (repoPath ?s) ''v1.0.0'' = Inr \<lparr>Name = ''v1.0.0'', Timestamp = 10\<rparr>" by simp
  have h3: "''v1.1.0'' = '''' \<or>
            ?search (repoPath ?s) ''v1.1.0'' = Inr \<lparr>Name = ''v1.1.0'', Timestamp = 25\<rparr>" by simp
  have d3: "Sprintf_d 3 = ''3''" by (simp add: Sprintf_d_def digits.simps)
  show ?thesis
    using Changes_one_summary_per_classified_issue [OF h1 h2 h3]
    by (simp add: filterIssues_def issuesAfter_def issuesBefore_def issuesWithLabel_def d3)
qed

lemma set_filterIssues_open_range:
  "set (filterIssues issues [issuesAfter t, issuesWithLabel ls])
     = {issue \<in> set issues. ClosedAt issue > t \<and> set (Labels issue) \<inter> set ls \<noteq> {}}"
  by (auto simp: filterIssues_def issuesAfter_def issuesWithLabel_def)

text \<open>
  C2. The filters \<open>Changes\<close> applies are \<open>issuesAfter\<close> of the since tag's timestamp and
  \<open>issuesWithLabel\<close> of all labels of the table, and \<open>issuesBefore\<close> of the until tag's
  timestamp in addition exactly when \<open>untilRef\<close> is non-empty; with an empty \<open>untilRef\<close>
  every issue closed after the since timestamp that carries a known label passes,
  whatever its closing time.
\<close>

theorem Changes_filter_set:
  "(fetchClosedIssues (userName s) (repoName s) = Inr allClosedIssues
      \<and> SearchForTag (repoPath s) sinceRef = Inr sinceTag \<and> untilRef = '''' \<longrightarrow>
      snd (Changes fetchClosedIssues SearchForTag s sinceRef untilRef)
        = (Changes_loop (changeTypeByLabel s)
             (filterIssues allClosedIssues
                [issuesAfter (Tag.Timestamp sinceTag),
                 issuesWithLabel (labels (changeTypeByLabel s))]) [],
           None))
   \<and> (fetchClosedIssues (userName s) (repoName s) = Inr allClosedIssues
      \<and> SearchForTag (repoPath s) sinceRef = Inr sinceTag \<and> untilRef \<noteq> ''''
      \<and> SearchForTag (repoPath s) untilRef = Inr untilTag \<longrightarrow>
      snd (Changes fetchClosedIssues SearchForTag s sinceRef untilRef)
        = (Changes_loop (changeTypeByLabel s)
             (filterIssues allClosedIssues
                [issuesAfter (Tag.Timestamp sinceTag),
                 issuesWithLabel (labels (changeTypeByLabel s)),
                 issuesBefore (Tag.Timestamp untilTag)]) [],
           None))
   \<and> set (filterIssues allClosedIssues
             [issuesAfter (Tag.Timestamp sinceTag),
              issuesWithLabel (labels (changeTypeByLabel s))])
       = {issue \<in> set allClosedIssues.
            ClosedAt issue > Tag.Timestamp sinceTag
            \<and> set (Labels issue) \<inter> set (labels (changeTypeByLabel s)) \<noteq> {}}"
proof (intro conjI impI)
  assume "fetchClosedIssues (userName s) (repoName s) = Inr allClosedIssues
      \<and> SearchForTag (repoPath s) sinceRef = Inr sinceTag \<and> untilRef = ''''"
  then show "snd (Changes fetchClosedIssues SearchForTag s sinceRef untilRef)
        = (Changes_loop (changeTypeByLabel s)
             (filterIssues allClosedIssues
                [issuesAfter (Tag.Timestamp sinceTag),
                 issuesWithLabel (labels (changeTypeByLabel s))]) [],
           None)"
    by (simp add: Changes_open_range)
next
  assume "fetchClosedIssues (userName s) (repoName s) = Inr allClosedIssues
      \<and> SearchForTag (repoPath s) sinceRef = Inr sinceTag \<and> untilRef \<noteq> ''''
      \<and> SearchForTag (repoPath s) untilRef = Inr untilTag"
  then show "snd (Changes fetchClosedIssues SearchForTag s sinceRef untilRef)
        = (Changes_loop (changeTypeByLabel s)
             (filterIssues allClosedIssues
                [issuesAfter (Tag.Timestamp sinceTag),
                 issuesWithLabel (labels (changeTypeByLabel s)),
                 issuesBefore (Tag.Timestamp untilTag)]) [],
           None)"
    by (simp add: Changes_closed_range)
next
  show "set (filterIssues allClosedIssues
             [issuesAfter (Tag.Timestamp sinceTag),
              issuesWithLabel (labels (changeTypeByLabel s))])
       = {issue \<in> set allClosedIssues.
            ClosedAt issue > Tag.Timestamp sinceTag
            \<and> set (Labels issue) \<inter> set (labels (changeTypeByLabel s)) \<noteq> {}}"
    by (rule set_filterIssues_open_range)
qed

theorem Changes_filter_set_witness:
  "snd (Changes
     (\<lambda>u r. Inr [\<lparr>Title = ''Crash on start'', Number = 1, Labels = [''bug''], ClosedAt = 10,
                    URL = ''https://github.com/acme/widgets/issues/1''\<rparr>,
                  \<lparr>Title = ''Slow query'', Number = 2, Labels = [''bug''], ClosedAt = 11,
                    URL = ''https://github.com/acme/widgets/issues/2''\<rparr>,
                  \<lparr>Title = ''Add export'', Number = 3, Labels = [''enhancement''],
                    ClosedAt = 9000, URL = ''https://github.com/acme/widgets/issues/3''\<rparr>])
     (\<lambda>p r. if r = ''v1.0.0'' then Inr \<lparr>Name = ''v1.0.0'', Timestamp = 10\<rparr>
            else Inl (Upstream ''tag not found''))
     \<lparr>repoPath = ''/src/widgets'', userName = ''acme'', repoName = ''widgets'',
       changeTypeByLabel =
         \<lparr>labels = [''bug'', ''enhancement''],
           changeTypes = (\<lambda>ls. concat (map (\<lambda>l. if l = ''bug'' then [''fixed'']
                                              else if l = ''enhancement'' then [''added'']
                                              else []) ls))\<rparr>\<rparr>
     ''v1.0.0'' '''')
   = ([\<lparr>Text = ''Slow query'', ChangeTypes = [''fixed''], Timestamp = 11,
        References = [\<lparr>Reference.Text = ''#2'',
                       Reference.URL = ''https://github.com/acme/widgets/issues/2''\<rparr>]\<rparr>,
       \<lparr>Text = ''Add export'', ChangeTypes = [''added''], Timestamp = 9000,
        References = [\<lparr>Reference.Text = ''#3'',
                       Reference.URL = ''https://github.com/acme/widgets/issues/3''\<rparr>]\<rparr>],
      None)"
proof -
  let ?is = "[\<lparr>Title = ''Crash on start'', Number = 1, Labels = [''bug''], ClosedAt = 10,
                    URL = ''https://github.com/acme/widgets/issues/1''\<rparr>,
                  \<lparr>Title = ''Slow query'', Number = 2, Labels = [''bug''], ClosedAt = 11,
                    URL = ''https://github.com/acme/widgets/issues/2''\<rparr>,
                  \<lparr>Title = ''Add export'', Number = 3, Labels = [''enhancement''],
                    ClosedAt = 9000, URL = ''https://github.com/acme/widgets/issues/3''\<rparr>]"
  let ?fetch = "\<lambda>(u::string) (r::string). Inr ?is :: error + issue list"
  let ?search = "\<lambda>(p::string) r. if r = ''v1.0.0'' then Inr \<lparr>Name = ''v1.0.0'', Timestamp = 10\<rparr>
            else Inl (Upstream ''tag not found'')"
  let ?s = "\<lparr>repoPath = ''/src/widgets'', userName = ''acme'', repoName = ''widgets'',
       changeTypeByLabel =
         \<lparr>labels = [''bug'', ''enhancement''],
           changeTypes = (\<lambda>ls. concat (map (\<lambda>l. if l = ''bug'' then [''fixed'']
                                              else if l = ''enhancement'' then [''added'']
                                              else []) ls))\<rparr>\<rparr>"
  have h: "?fetch (userName ?s) (repoName ?s) = Inr ?is
      \<and> ?search (repoPath ?s) ''v1.0.0'' = Inr \<lparr>Name = ''v1.0.0'', Timestamp = 10\<rparr>
      \<and> ('''' :: string) = ''''" by simp
  have d2: "Sprintf_d 2 = ''2''" by (simp add: Sprintf_d_def digits.simps)
  have d3: "Sprintf_d 3 = ''3''" by (simp add: Sprintf_d_def digits.simps)
  have "snd (Changes ?fetch ?search ?s ''v1.0.0'' '''')
        = (Changes_loop (changeTypeByLabel ?s)
             (filterIssues ?is
                [issuesAfter (Tag.Timestamp \<lparr>Name = ''v1.0.0'', Timestamp = 10\<rparr>),
                 issuesWithLabel (labels (changeTypeByLabel ?s))]) [],
           None)"
    using Changes_filter_set
      [of ?fetch ?s ?is ?search "''v1.0.0''" "\<lparr>Name = ''v1.0.0'', Timestamp = 10\<rparr>" "''''"] h
    by blast
  then show ?thesis
    by (simp add: filterIssues_def issuesAfter_def issuesWithLabel_def d2 d3)
qed

section \<open>Failure behaviour of Changes\<close>



section \<open>Order of the collaborator calls\<close>

text \<open>
  C10. \<open>Changes\<close> fetches the closed issues before it resolves any tag: when the fetch
  fails, the fetch is the only collaborator call made and its error is returned, also when
  resolving \<open>sinceRef\<close> would fail; with an empty \<open>untilRef\<close> at most one tag is resolved,
  \<open>sinceRef\<close>, and the result does not depend on what resolving any other reference
  would give.
\<close>

theorem Changes_fetches_before_resolving:
  "(fetchClosedIssues (userName s) (repoName s) = Inl err \<longrightarrow>
      Changes fetchClosedIssues SearchForTag s sinceRef untilRef
        = ([Call_fetchClosedIssues (userName s) (repoName s)], [], Some err))
   \<and> (fetchClosedIssues (userName s) (repoName s) = Inl err
        \<and> SearchForTag (repoPath s) sinceRef = Inl err' \<longrightarrow>
        snd (snd (Changes fetchClosedIssues SearchForTag s sinceRef untilRef)) = Some err
        \<and> (\<forall>p r. Call_SearchForTag p r
                    \<notin> set (fst (Changes fetchClosedIssues SearchForTag s sinceRef untilRef))))
   \<and> (fst (Changes fetchClosedIssues SearchForTag s sinceRef '''')
         = [Call_fetchClosedIssues (userName s) (repoName s)]
       \<or> fst (Changes fetchClosedIssues SearchForTag s sinceRef '''')
         = [Call_fetchClosedIssues (userName s) (repoName s),
            Call_SearchForTag (repoPath s) sinceRef])
   \<and> (fetchClosedIssues (userName s) (repoName s) = Inr allClosedIssues
        \<and> SearchForTag (repoPath s) sinceRef = Inr sinceTag \<longrightarrow>
        fst (Changes fetchClosedIssues SearchForTag s sinceRef '''')
          = [Call_fetchClosedIssues (userName s) (repoName s),
             Call_SearchForTag (repoPath s) sinceRef]
        \<and> snd (snd (Changes fetchClosedIssues SearchForTag s sinceRef '''')) = None)
   \<and> (SearchForTag' (repoPath s) sinceRef = SearchForTag (repoPath s) sinceRef \<longrightarrow>
        Changes fetchClosedIssues SearchForTag' s sinceRef ''''
          = Changes fetchClosedIssues SearchForTag s sinceRef '''')"
proof (intro conjI impI)
  assume "fetchClosedIssues (userName s) (repoName s) = Inl err"
  then show "Changes fetchClosedIssues SearchForTag s sinceRef untilRef
        = ([Call_fetchClosedIssues (userName s) (repoName s)], [], Some err)"
    by (rule Changes_fetch_error)
next
  assume "fetchClosedIssues (userName s) (repoName s) = Inl err
        \<and> SearchForTag (repoPath s) sinceRef = Inl err'"
  then show "snd (snd (Changes fetchClosedIssues SearchForTag s sinceRef untilRef)) = Some err"
    by (simp add: Changes_fetch_error)
next
  assume "fetchClosedIssues (userName s) (repoName s) = Inl err
        \<and> SearchForTag (repoPath s) sinceRef = Inl err'"
  then show "\<forall>p r. Call_SearchForTag p r
                    \<notin> set (fst (Changes fetchClosedIssues SearchForTag s sinceRef untilRef))"
    by (simp add: Changes_fetch_error)
next
  show "fst (Changes fetchClosedIssues SearchForTag s sinceRef '''')
         = [Call_fetchClosedIssues (userName s) (repoName s)]
       \<or> fst (Changes fetchClosedIssues SearchForTag s sinceRef '''')
         = [Call_fetchClosedIssues (userName s) (repoName s),
            Call_SearchForTag (repoPath s) sinceRef]"
    by (simp add: Changes_def Let_def split: sum.splits)
next
  assume "fetchClosedIssues (userName s) (repoName s) = Inr allClosedIssues
        \<and> SearchForTag (repoPath s) sinceRef = Inr sinceTag"
  then show "fst (Changes fetchClosedIssues SearchForTag s sinceRef '''')
          = [Call_fetchClosedIssues (userName s) (repoName s),
             Call_SearchForTag (repoPath s) sinceRef]"
    by (simp add: Changes_open_range)
next
  assume "fetchClosedIssues (userName s) (repoName s) = Inr allClosedIssues
        \<and> SearchForTag (repoPath s) sinceRef = Inr sinceTag"
  then show "snd (snd (Changes fetchClosedIssues SearchForTag s sinceRef '''')) = None"
    by (simp add: Changes_open_range)
next
  assume "SearchForTag' (repoPath s) sinceRef = SearchForTag (repoPath s) sinceRef"
  then show "Changes fetchClosedIssues SearchForTag' s sinceRef ''''
          = Changes fetchClosedIssues SearchForTag s sinceRef ''''"
    by (cases "fetchClosedIssues (userName s) (repoName s)";
        cases "SearchForTag (repoPath s) sinceRef")
       (simp_all add: Changes_def)
qed

theorem Changes_fetches_before_resolving_witness:
  "Changes (\<lambda>u r. Inl (Upstream ''rate limited''))
     (\<lambda>p r. Inl (Upstream ''tag not found''))
     \<lparr>repoPath = ''/src/widgets'', userName = ''acme'', repoName = ''widgets'',
       changeTypeByLabel = \<lparr>labels = [''bug''], changeTypes = (\<lambda>ls. [''fixed''])\<rparr>\<rparr>
     ''v1.0.0'' ''v1.1.0''
   = ([Call_fetchClosedIssues ''acme'' ''widgets''], [], Some (Upstream ''rate limited''))
   \<and> Changes (\<lambda>u r. Inr [])
     (\<lambda>p r. if r = ''v1.0.0'' then Inr \<lparr>Name = ''v1.0.0'', Timestamp = 10\<rparr>
            else Inl (Upstream ''tag not found''))
     \<lparr>repoPath = ''/src/widgets'', userName = ''acme'', repoName = ''widgets'',
       changeTypeByLabel = \<lparr>labels = [''bug''], changeTypes = (\<lambda>ls. [''fixed''])\<rparr>\<rparr>
     ''v1.0.0'' ''''
   = ([Call_fetchClosedIssues ''acme'' ''widgets'', Call_SearchForTag ''/src/widgets'' ''v1.0.0''],
      [], None)"
proof -
  let ?s = "\<lparr>repoPath = ''/src/widgets'', userName = ''acme'', repoName = ''widgets'',
       changeTypeByLabel = \<lparr>labels = [''bug''], changeTypes = (\<lambda>ls. [''fixed''])\<rparr>\<rparr>"
  let ?search = "\<lambda>(p::string) r. if r = ''v1.0.0'' then Inr \<lparr>Name = ''v1.0.0'', Timestamp = 10\<rparr>
            else Inl (Upstream ''tag not found'')"
  let ?t = "\<lparr>Name = ''v1.0.0'', Timestamp = 10\<rparr>"
  have a: "Changes (\<lambda>u r. Inl (Upstream ''rate limited'')) (\<lambda>p r. Inl (Upstream ''tag not found''))
             ?s ''v1.0.0'' ''v1.1.0''
           = ([Call_fetchClosedIssues ''acme'' ''widgets''], [], Some (Upstream ''rate limited''))"
    using Changes_fetches_before_resolving
      [of "\<lambda>u r. Inl (Upstream ''rate limited'')" ?s "Upstream ''rate limited''"
          "\<lambda>p r. Inl (Upstream ''tag not found'')" "''v1.0.0''" "''v1.1.0''"
          "Upstream ''tag not found''" "[]" ?t "\<lambda>p r. Inl (Upstream ''tag not found'')"]
    by simp
  have "fst (Changes (\<lambda>u r. Inr []) ?search ?s ''v1.0.0'' '''')
          = [Call_fetchClosedIssues (userName ?s) (repoName ?s),
             Call_SearchForTag (repoPath ?s) ''v1.0.0'']
        \<and> snd (snd (Changes (\<lambda>u r. Inr []) ?search ?s ''v1.0.0'' '''')) = None"
    using Changes_fetches_before_resolving
      [of "\<lambda>u r. Inr []" ?s "Upstream ''rate limited''" ?search "''v1.0.0''" "''''"
          "Upstream ''tag not found''" "[]" ?t ?search]
    by simp
  moreover have "fst (snd (Changes (\<lambda>u r. Inr []) ?search ?s ''v1.0.0'' '''')) = []"
    by (simp add: Changes_def filterIssues_def)
  ultimately have b: "Changes (\<lambda>u r. Inr []) ?search ?s ''v1.0.0'' ''''
      = ([Call_fetchClosedIssues ''acme'' ''widgets'',
          Call_SearchForTag ''/src/widgets'' ''v1.0.0''], [], None)"
    by (simp add: prod_eq_iff)
  from a b show ?thesis by simp
qed

end
